theory Spec2Isabelle
  imports Complex_Main "HOL-Library.Word" "HOL-Library.Log_Nat"
begin

section \<open>Python values and exceptions\<close>

text \<open>
  The nodes of \<^verbatim>\<open>Mflux_Pro.py\<close> receive dynamically typed arguments from the host.
  The values that reach them are modelled by \<open>pyval\<close>. A finite Python float is
  represented by the rational number it denotes; infinities and NaN are not modelled.
\<close>

datatype pyval = PNone | PBool bool | PInt int | PFloat rat | PStr string

datatype pytype = TNoneType | TBool | TInt | TFloat | TStr

datatype exception = TypeError | AttributeError | ValueError | OverflowError | OSError

fun type_of :: "pyval \<Rightarrow> pytype" where
  "type_of PNone = TNoneType"
| "type_of (PBool b) = TBool"
| "type_of (PInt n) = TInt"
| "type_of (PFloat x) = TFloat"
| "type_of (PStr s) = TStr"

text \<open>The only proper subclass relation among the built-in types above: \<open>bool\<close> derives from \<open>int\<close>.\<close>

fun issubclass :: "pytype \<Rightarrow> pytype \<Rightarrow> bool" where
  "issubclass TBool TInt = True"
| "issubclass t u = (t = u)"

definition isinstance :: "pyval \<Rightarrow> pytype list \<Rightarrow> bool" where
  "isinstance v classes = list_ex (issubclass (type_of v)) classes"

text \<open>\<open>str(i)\<close> for a non-negative integer, as the f-strings \<^verbatim>\<open>f"Lora{i}"\<close> format it.\<close>

fun str_nat :: "nat \<Rightarrow> string" where
  "str_nat n =
     (if n < 10 then [char_of (48 + n)]
      else str_nat (n div 10) @ [char_of (48 + n mod 10)])"

section \<open>Binary floating point\<close>

text \<open>
  Rounding a rational to a binary format of \<open>p\<close> bits of precision and least normal
  exponent \<open>emin\<close>: the nearest multiple of the unit in the last place at the binade of
  the argument (the least binade below \<open>emin\<close>), the one with the even multiplier of two
  equally near. This is the rounding of IEEE 754 arithmetic and of CPython's conversions
  to \<open>float\<close>. The largest exponent is not part of the rounding: an operation compares
  its rounded result with the bound of the format.
\<close>

definition round_half_even :: "rat \<Rightarrow> int" where
  "round_half_even x =
     (let f = \<lfloor>x\<rfloor>; d = x - of_int f
      in if d < 1 / 2 then f
         else if 1 / 2 < d then f + 1
         else if even f then f else f + 1)"

definition pow2 :: "int \<Rightarrow> rat" where
  "pow2 e = (if 0 \<le> e then 2 ^ nat e else 1 / 2 ^ nat (- e))"

text \<open>The binade of a positive rational \<open>x\<close>: the \<open>e\<close> with \<open>2 ^ e \<le> x < 2 ^ (e + 1)\<close>.\<close>

definition floor_log2 :: "rat \<Rightarrow> int" where
  "floor_log2 x = (if 1 \<le> x then bitlen \<lfloor>x\<rfloor> - 1 else - bitlen (\<lceil>1 / x\<rceil> - 1))"

definition binary_round :: "nat \<Rightarrow> int \<Rightarrow> rat \<Rightarrow> rat" where
  "binary_round p emin x =
     (if x = 0 then 0
      else let e = max (floor_log2 \<bar>x\<bar>) emin;
               ulp = pow2 (e - (int p - 1))
           in of_int (round_half_even (x / ulp)) * ulp)"

text \<open>The 64-bit format of a Python \<open>float\<close> and the 32-bit format of \<^verbatim>\<open>np.float32\<close>.\<close>

definition float64 :: "rat \<Rightarrow> rat" where
  "float64 x = binary_round 53 (- 1022) x"

definition float64_overflow :: "rat \<Rightarrow> bool" where
  "float64_overflow r = (2 ^ 1024 \<le> \<bar>r\<bar>)"

definition float32 :: "rat \<Rightarrow> rat" where
  "float32 x = binary_round 24 (- 126) x"

section \<open>\<^verbatim>\<open>os.path.join\<close> (POSIX)\<close>

text \<open>
  \<^verbatim>\<open>posixpath.join(a, *p)\<close> of the standard library: a component that starts with the
  separator replaces what was joined so far, otherwise it is appended, with a separator
  in between unless the path so far is empty or ends with one. A component that is not
  a string raises \<open>TypeError\<close>.
\<close>

definition join_component :: "string \<Rightarrow> string \<Rightarrow> string" where
  "join_component path b =
     (if b \<noteq> [] \<and> hd b = CHR ''/'' then b
      else if path = [] \<or> last path = CHR ''/'' then path @ b
      else path @ ''/'' @ b)"

fun fspath :: "pyval \<Rightarrow> exception + string" where
  "fspath (PStr s) = Inr s"
| "fspath v = Inl TypeError"

fun os_path_join :: "string \<Rightarrow> pyval list \<Rightarrow> exception + string" where
  "os_path_join path [] = Inr path"
| "os_path_join path (b # p) =
     (case fspath b of
        Inl e \<Rightarrow> Inl e
      | Inr s \<Rightarrow> os_path_join (join_component path s) p)"

section \<open>The LoRA stack holder and the LoRA loader node\<close>

record MfluxLorasPipeline =
  lora_paths :: "string list"
  lora_scales :: "pyval list"

definition MfluxLorasPipeline_clear_cache :: "MfluxLorasPipeline \<Rightarrow> MfluxLorasPipeline" where
  "MfluxLorasPipeline_clear_cache self = self\<lparr>lora_paths := [], lora_scales := []\<rparr>"

text \<open>\<^verbatim>\<open>kwargs.get(k)\<close>: the value stored under \<open>k\<close>, \<open>None\<close> when the key is missing.\<close>

definition kwargs_get :: "(string \<rightharpoonup> pyval) \<Rightarrow> string \<Rightarrow> pyval" where
  "kwargs_get kwargs k = (case kwargs k of None \<Rightarrow> PNone | Some v \<Rightarrow> v)"

text \<open>
  The list comprehension of \<open>lora_stacker\<close> over the slot numbers: a slot whose selection
  differs from the string \<^verbatim>\<open>"None"\<close> contributes the pair of its joined path and its scale.
  The first slot whose path cannot be joined raises.
\<close>

fun lora_models_of :: "string \<Rightarrow> (string \<rightharpoonup> pyval) \<Rightarrow> nat list \<Rightarrow> exception + (string \<times> pyval) list" where
  "lora_models_of lora_base_path kwargs [] = Inr []"
| "lora_models_of lora_base_path kwargs (i # slots) =
     (if kwargs_get kwargs (''Lora'' @ str_nat i) \<noteq> PStr ''None'' then
        (case os_path_join lora_base_path [PStr ''loras'', kwargs_get kwargs (''Lora'' @ str_nat i)] of
           Inl e \<Rightarrow> Inl e
         | Inr path \<Rightarrow>
             (case lora_models_of lora_base_path kwargs slots of
                Inl e \<Rightarrow> Inl e
              | Inr rest \<Rightarrow> Inr ((path, kwargs_get kwargs (''scale'' @ str_nat i)) # rest)))
      else lora_models_of lora_base_path kwargs slots)"

text \<open>
  \<open>lora_stacker\<close>. The first argument is the host's \<^verbatim>\<open>folder_paths.models_dir\<close>. The
  optional input \<open>Loras\<close> is declared with the type of the holder, so a supplied value
  is an instance of it; \<open>None\<close> is the absent input. The one-element tuple the
  node returns is represented by its element.
\<close>

definition lora_stacker ::
    "string \<Rightarrow> MfluxLorasPipeline option \<Rightarrow> (string \<rightharpoonup> pyval) \<Rightarrow> exception + MfluxLorasPipeline" where
  "lora_stacker models_dir Loras kwargs =
     (case lora_models_of models_dir kwargs [1..<4] of
        Inl e \<Rightarrow> Inl e
      | Inr local_models \<Rightarrow>
          (let lora_models =
                 (case Loras of
                    None \<Rightarrow> local_models
                  | Some upstream \<Rightarrow>
                      if lora_paths upstream \<noteq> [] \<and> lora_scales upstream \<noteq> []
                      then local_models @ zip (lora_paths upstream) (lora_scales upstream)
                      else local_models)
           in if lora_models \<noteq> []
              then Inr \<lparr>lora_paths = map fst lora_models, lora_scales = map snd lora_models\<rparr>
              else Inr \<lparr>lora_paths = [], lora_scales = []\<rparr>))"

section \<open>The image reference holder and the image loader node\<close>

record MfluxImagePipeline =
  image_path :: "string option"
  strength :: pyval

definition MfluxImagePipeline_clear_cache :: "MfluxImagePipeline \<Rightarrow> MfluxImagePipeline" where
  "MfluxImagePipeline_clear_cache self = self\<lparr>image_path := None, strength := PNone\<rparr>"

text \<open>
  The built-in \<open>float(x)\<close>. An integer is rounded to the nearest float and raises
  \<open>OverflowError\<close> when that lies beyond the largest float. Parsing a string is left to
  the parameter \<open>float_of_str\<close>: the float that the string denotes, \<open>None\<close> when the
  string is no float literal, which raises \<open>ValueError\<close>.
\<close>

fun py_float :: "(string \<Rightarrow> rat option) \<Rightarrow> pyval \<Rightarrow> exception + rat" where
  "py_float float_of_str (PFloat x) = Inr x"
| "py_float float_of_str (PInt n) =
     (let r = float64 (of_int n) in if float64_overflow r then Inl OverflowError else Inr r)"
| "py_float float_of_str (PBool b) = Inr (if b then 1 else 0)"
| "py_float float_of_str (PStr s) =
     (case float_of_str s of None \<Rightarrow> Inl ValueError | Some x \<Rightarrow> Inr x)"
| "py_float float_of_str PNone = Inl TypeError"

text \<open>
  The built-in \<open>round(x, ndigits)\<close> on a float, for \<open>ndigits\<close> not negative. The exact
  value of \<open>x\<close> is rounded to the closest multiple of \<open>10 ^ - ndigits\<close>, the even one of two
  equally close, and this decimal is converted to the nearest float; the result raises
  \<open>OverflowError\<close> when it lies beyond the largest float. Beyond 323 digits CPython
  returns \<open>x\<close> as it is.
\<close>

definition py_round :: "rat \<Rightarrow> nat \<Rightarrow> exception + rat" where
  "py_round x ndigits =
     (if 323 < ndigits then Inr x
      else let r = float64 (of_int (round_half_even (x * 10 ^ ndigits)) / 10 ^ ndigits)
           in if float64_overflow r then Inl OverflowError else Inr r)"

text \<open>
  \<open>MfluxLoadImage.IS_CHANGED\<close>. The built-in \<open>hash\<close> on strings is the parameter
  \<open>hash\<close>: one function for the lifetime of the interpreter, with values of the 64-bit
  type \<^verbatim>\<open>Py_hash_t\<close>. Here and below, a parameter of the source whose name is taken by
  a constant (a field of a holder, the image of a set) carries a prime.
\<close>

definition MfluxLoadImage_IS_CHANGED ::
    "(string \<Rightarrow> 64 word) \<Rightarrow> (string \<Rightarrow> rat option) \<Rightarrow> string \<Rightarrow> pyval \<Rightarrow>
     exception + (64 word \<times> rat)" where
  "MfluxLoadImage_IS_CHANGED hash float_of_str image' strength' =
     (let image_hash = hash image'
      in case py_float float_of_str strength' of
           Inl e \<Rightarrow> Inl e
         | Inr x \<Rightarrow>
             (case py_round x 2 of
                Inl e \<Rightarrow> Inl e
              | Inr strength_rounded \<Rightarrow> Inr (image_hash, strength_rounded)))"

text \<open>
  A validation hook returns \<open>True\<close> or a message. The messages are kept as constructors
  that carry the value the source formats into the text.
\<close>

datatype message =
    Invalid_image_file string
  | Strength_must_be_a_number
  | Invalid_model_selection pyval
  | Save_canny_must_be_a_boolean_value

datatype validation = Valid | Invalid message

text \<open>
  \<open>MfluxLoadImage.VALIDATE_INPUTS\<close>. The host's \<^verbatim>\<open>folder_paths.exists_annotated_filepath\<close>
  is the parameter \<open>exists_annotated_filepath\<close>.
\<close>

definition MfluxLoadImage_VALIDATE_INPUTS :: "(string \<Rightarrow> bool) \<Rightarrow> string \<Rightarrow> pyval \<Rightarrow> validation" where
  "MfluxLoadImage_VALIDATE_INPUTS exists_annotated_filepath image' strength' =
     (if \<not> exists_annotated_filepath image' then Invalid (Invalid_image_file image')
      else if \<not> isinstance strength' [TInt, TFloat] then Invalid Strength_must_be_a_number
      else Valid)"

section \<open>The ControlNet configuration holder and the ControlNet loader node\<close>

record MfluxControlNetPipeline =
  model_selection :: pyval
  save_canny :: pyval

definition MfluxControlNetPipeline_clear_cache :: "MfluxControlNetPipeline \<Rightarrow> MfluxControlNetPipeline" where
  "MfluxControlNetPipeline_clear_cache self = self\<lparr>model_selection := PNone, save_canny := PBool False\<rparr>"

text \<open>
  A numpy array and a torch tensor alike: the shape, and the elements in row-major order.
\<close>

record 'a ndarray =
  shape :: "nat list"
  elements :: "'a list"

definition dim :: "'a ndarray \<Rightarrow> nat" where
  "dim t = length (shape t)"

definition unsqueeze :: "nat \<Rightarrow> 'a ndarray \<Rightarrow> 'a ndarray" where
  "unsqueeze k t = t\<lparr>shape := take k (shape t) @ 1 # drop k (shape t)\<rparr>"

definition map_ndarray :: "('a \<Rightarrow> 'b) \<Rightarrow> 'a ndarray \<Rightarrow> 'b ndarray" where
  "map_ndarray f a = \<lparr>shape = shape a, elements = map f (elements a)\<rparr>"

text \<open>
  \<^verbatim>\<open>Image.open\<close> on the value of \<open>image_path\<close>: the parameter \<open>Image_open\<close> opens a path
  given as a string (and may fail); \<open>None\<close> is no path and no file object.
\<close>

definition PIL_Image_open :: "(string \<Rightarrow> exception + 'img) \<Rightarrow> string option \<Rightarrow> exception + 'img" where
  "PIL_Image_open Image_open fp = (case fp of None \<Rightarrow> Inl AttributeError | Some p \<Rightarrow> Image_open p)"

text \<open>
  \<^verbatim>\<open>astype(np.float32)\<close> on an array of an integer type and the division of an array of
  32-bit floats by a scalar: elementwise, each result the nearest 32-bit float.
\<close>

definition astype_float32 :: "int ndarray \<Rightarrow> rat ndarray" where
  "astype_float32 a = map_ndarray (\<lambda>px. float32 (of_int px)) a"

definition float32_divide :: "rat ndarray \<Rightarrow> rat \<Rightarrow> rat ndarray" where
  "float32_divide a c = map_ndarray (\<lambda>x. float32 (x / float32 c)) a"

text \<open>
  \<open>load_and_select\<close>. The libraries are parameters: \<open>Image_open\<close>, the preprocessing
  \<open>preprocess_canny\<close> (which may fail) and the conversion \<open>np_array\<close> of an image to an
  array of integer pixels. \<^verbatim>\<open>torch.from_numpy\<close> keeps the shape and the elements of the
  array. The strength of the reference is read and not used.
\<close>

definition load_and_select ::
    "(string \<Rightarrow> exception + 'img) \<Rightarrow> ('img \<Rightarrow> exception + 'img) \<Rightarrow> ('img \<Rightarrow> int ndarray) \<Rightarrow>
     pyval \<Rightarrow> pyval \<Rightarrow> MfluxImagePipeline option \<Rightarrow>
     exception + (MfluxControlNetPipeline \<times> rat ndarray)" where
  "load_and_select Image_open preprocess_canny np_array model_selection' save_canny' image' =
     (let path = (case image' of None \<Rightarrow> None | Some i \<Rightarrow> image_path i);
          strength' = (case image' of None \<Rightarrow> PNone | Some i \<Rightarrow> strength i)
      in case PIL_Image_open Image_open path of
           Inl e \<Rightarrow> Inl e
         | Inr img \<Rightarrow>
             (case preprocess_canny img of
                Inl e \<Rightarrow> Inl e
              | Inr canny_image \<Rightarrow>
                  (let canny_image_np = float32_divide (astype_float32 (np_array canny_image)) 255;
                       canny_tensor = canny_image_np;
                       canny_tensor' = (if dim canny_tensor = 3 then unsqueeze 0 canny_tensor else canny_tensor)
                   in Inr (\<lparr>model_selection = model_selection', save_canny = save_canny'\<rparr>, canny_tensor'))))"

text \<open>
  \<open>MfluxControlNetLoader.VALIDATE_INPUTS\<close>. An image holder is always true as a
  condition; the existence test is applied to its \<open>image_path\<close>, and raises on \<open>None\<close>,
  which has no string methods.
\<close>

definition available_models :: "pyval list" where
  "available_models = [PStr ''InstantX/FLUX.1-dev-Controlnet-Canny'']"

definition MfluxControlNetLoader_VALIDATE_INPUTS ::
    "(string \<Rightarrow> bool) \<Rightarrow> MfluxImagePipeline option \<Rightarrow> pyval \<Rightarrow> pyval \<Rightarrow> exception + validation" where
  "MfluxControlNetLoader_VALIDATE_INPUTS exists_annotated_filepath image' model_selection' save_canny' =
     (let selection_and_flag =
            (if model_selection' \<notin> set available_models then Invalid (Invalid_model_selection model_selection')
             else if \<not> isinstance save_canny' [TBool] then Invalid Save_canny_must_be_a_boolean_value
             else Valid)
      in case image' of
           None \<Rightarrow> Inr selection_and_flag
         | Some i \<Rightarrow>
             (case image_path i of
                None \<Rightarrow> Inl AttributeError
              | Some p \<Rightarrow>
                  if \<not> exists_annotated_filepath p then Inr (Invalid (Invalid_image_file p))
                  else Inr selection_and_flag))"

section \<open>Notions of the specification\<close>

text \<open>
  The path of a selected LoRA file: the models directory, the subpath \<^verbatim>\<open>loras\<close> and the
  selection, joined.
\<close>

definition resolved_path :: "string \<Rightarrow> string \<Rightarrow> string" where
  "resolved_path models_dir selection = join_component (join_component models_dir ''loras'') selection"

text \<open>
  The local list of the specification: one entry of resolved path and scale for every
  slot, in the order given, whose selection is not the string \<^verbatim>\<open>"None"\<close>.
\<close>

definition spec_local_entries :: "string \<Rightarrow> (string \<times> pyval) list \<Rightarrow> (string \<times> pyval) list" where
  "spec_local_entries models_dir slots =
     map (\<lambda>(selection, scale). (resolved_path models_dir selection, scale))
       (filter (\<lambda>(selection, scale). selection \<noteq> ''None'') slots)"

text \<open>The invariant of a LoRA stack: paths and scales are index-aligned.\<close>

definition LoraStack_invariant :: "MfluxLorasPipeline \<Rightarrow> bool" where
  "LoraStack_invariant stack = (length (lora_paths stack) = length (lora_scales stack))"

fun upstream_paths :: "MfluxLorasPipeline option \<Rightarrow> string list" where
  "upstream_paths None = []"
| "upstream_paths (Some upstream) = lora_paths upstream"

fun upstream_scales :: "MfluxLorasPipeline option \<Rightarrow> pyval list" where
  "upstream_scales None = []"
| "upstream_scales (Some upstream) = lora_scales upstream"

text \<open>
  The numeric values among \<open>pyval\<close>: integers, floats, and the booleans, which Python
  counts among the integers.
\<close>

fun numeric :: "pyval \<Rightarrow> bool" where
  "numeric (PInt n) = True"
| "numeric (PFloat x) = True"
| "numeric (PBool b) = True"
| "numeric v = False"

section \<open>Auxiliary facts\<close>

declare str_nat.simps [simp del]

lemma slot_numbers: "[1..<4] = [1, 2, 3]"
  by code_simp

lemma str_nat_digits: "str_nat 1 = ''1''" "str_nat 2 = ''2''" "str_nat 3 = ''3''"
  by code_simp+

lemma lora_models_of_slots:
  assumes "kwargs_get kwargs ''Lora1'' = PStr sel1"
    and "kwargs_get kwargs ''Lora2'' = PStr sel2"
    and "kwargs_get kwargs ''Lora3'' = PStr sel3"
  shows "lora_models_of models_dir kwargs [1..<4] =
           Inr (spec_local_entries models_dir
                  [(sel1, kwargs_get kwargs ''scale1''), (sel2, kwargs_get kwargs ''scale2''),
                   (sel3, kwargs_get kwargs ''scale3'')])"
  unfolding slot_numbers
  using assms
  by (simp add: str_nat_digits resolved_path_def spec_local_entries_def del: One_nat_def)

lemma isinstance_int_float: "isinstance v [TInt, TFloat] = numeric v"
  by (cases v) (simp_all add: isinstance_def)

lemma isinstance_bool: "isinstance v [TBool] = (\<exists>b. v = PBool b)"
  by (cases v) (simp_all add: isinstance_def)

lemma bitlen_pos: "0 < n \<Longrightarrow> 1 \<le> bitlen n"
  using bitlen_eq_zero_iff [of n] bitlen_nonneg [of n] by linarith

lemma floor_log2_ge1:
  assumes "1 \<le> x"
  shows "pow2 (floor_log2 x) \<le> x \<and> x < pow2 (floor_log2 x + 1)"
proof -
  let ?n = "\<lfloor>x\<rfloor>"
  from assms have n: "0 < ?n" by simp
  from bitlen_pos [OF n] have k: "1 \<le> bitlen ?n" .
  from bitlen_bounds [OF n]
  have lo: "2 ^ nat (bitlen ?n - 1) \<le> ?n" and hi: "?n < 2 ^ nat (bitlen ?n)" by simp_all
  have e: "floor_log2 x = bitlen ?n - 1" using assms by (simp add: floor_log2_def)
  have "(2::rat) ^ nat (bitlen ?n - 1) = of_int (2 ^ nat (bitlen ?n - 1))" by simp
  also have "\<dots> \<le> of_int ?n" using lo by (simp only: of_int_le_iff)
  also have "\<dots> \<le> x" by simp
  finally have a: "pow2 (floor_log2 x) \<le> x" using k by (simp add: e pow2_def)
  from hi have "?n + 1 \<le> 2 ^ nat (bitlen ?n)" by simp
  then have "(of_int (?n + 1) :: rat) \<le> of_int (2 ^ nat (bitlen ?n))" by (simp only: of_int_le_iff)
  moreover have "x < of_int (?n + 1)" by linarith
  ultimately have "x < of_int (2 ^ nat (bitlen ?n))" by (rule less_le_trans [rotated])
  then have "x < 2 ^ nat (bitlen ?n)" by simp
  then have b: "x < pow2 (floor_log2 x + 1)" using k by (simp add: e pow2_def)
  from a b show ?thesis ..
qed

lemma floor_log2_lt1:
  assumes "0 < x" and "x < 1"
  shows "pow2 (floor_log2 x) \<le> x \<and> x < pow2 (floor_log2 x + 1)"
proof -
  let ?y = "1 / x"
  let ?m = "\<lceil>?y\<rceil> - 1"
  from assms have y: "1 < ?y" by simp
  then have m: "0 < ?m" by linarith
  from bitlen_pos [OF m] have k: "1 \<le> bitlen ?m" .
  from bitlen_bounds [OF m]
  have lo: "2 ^ nat (bitlen ?m - 1) \<le> ?m" and hi: "?m < 2 ^ nat (bitlen ?m)" by simp_all
  have e: "floor_log2 x = - bitlen ?m" using assms by (simp add: floor_log2_def)
  from hi have "?m + 1 \<le> 2 ^ nat (bitlen ?m)" by simp
  then have "(of_int (?m + 1) :: rat) \<le> of_int (2 ^ nat (bitlen ?m))" by (simp only: of_int_le_iff)
  moreover have "?y \<le> of_int (?m + 1)" by simp
  ultimately have "?y \<le> of_int (2 ^ nat (bitlen ?m))" by (rule order_trans [rotated])
  then have "?y \<le> 2 ^ nat (bitlen ?m)" by simp
  with assms have "1 / 2 ^ nat (bitlen ?m) \<le> x"
    by (simp add: field_simps)
  then have a: "pow2 (floor_log2 x) \<le> x" using k by (simp add: e pow2_def)
  have "(of_int (2 ^ nat (bitlen ?m - 1)) :: rat) \<le> of_int ?m" using lo by (simp only: of_int_le_iff)
  moreover have "of_int ?m < ?y" by linarith
  ultimately have "of_int (2 ^ nat (bitlen ?m - 1)) < ?y" by (rule le_less_trans)
  then have "2 ^ nat (bitlen ?m - 1) < ?y" by simp
  with assms have lt: "x < 1 / 2 ^ nat (bitlen ?m - 1)"
    by (simp add: field_simps)
  have b: "x < pow2 (floor_log2 x + 1)"
  proof (cases "bitlen ?m = 1")
    case True
    with lt show ?thesis by (simp add: e pow2_def)
  next
    case False
    with k have "1 < bitlen ?m" by simp
    moreover then have "nat (bitlen ?m - 1) = nat (bitlen ?m) - 1" by simp
    ultimately show ?thesis using lt by (simp add: e pow2_def nat_diff_distrib)
  qed
  from a b show ?thesis ..
qed

lemma floor_log2_bounds:
  "0 < x \<Longrightarrow> pow2 (floor_log2 x) \<le> x \<and> x < pow2 (floor_log2 x + 1)"
  using floor_log2_ge1 floor_log2_lt1 by (cases "1 \<le> x") auto

lemma float32_255: "float32 255 = 255"
  by code_simp

lemma float32_bytes: "list_all (\<lambda>px. float32 (of_int px) = of_int px) [0..255]"
  by code_simp

lemma float32_byte: "0 \<le> px \<Longrightarrow> px \<le> 255 \<Longrightarrow> float32 (of_int px) = of_int px"
  using float32_bytes by (simp add: list_all_iff)

lemma py_round_half: "py_round (1 / 2) 2 = Inr (1 / 2)"
  by code_simp

lemma hash_collision:
  fixes hash :: "string \<Rightarrow> 64 word"
  shows "\<exists>i1 i2. i1 \<noteq> i2 \<and> hash i1 = hash i2"
proof -
  have "\<not> inj hash"
  proof
    assume "inj hash"
    then have "finite (UNIV :: string set)"
      by (rule finite_imageD [rotated]) simp
    then show False
      by (simp add: infinite_UNIV_listI)
  qed
  then show ?thesis
    by (auto simp: inj_def)
qed

section \<open>The LoRA loader\<close>

text \<open>
  Claim C1. For three slots whose selections are strings and an optional upstream stack
  (index-aligned, as every LoRA stack is), \<open>lora_stacker\<close> returns the stack whose
  entries are the local entries of the specification, one for each slot whose selection
  is not \<^verbatim>\<open>"None"\<close>, in slot order and each with its joined path, followed by the
  entries of the upstream stack in their order; paths and scales are the two projections
  of that list.
\<close>

theorem lora_stacker_entries:
  assumes "kwargs_get kwargs ''Lora1'' = PStr sel1"
    and "kwargs_get kwargs ''Lora2'' = PStr sel2"
    and "kwargs_get kwargs ''Lora3'' = PStr sel3"
    and "case Loras of None \<Rightarrow> True | Some upstream \<Rightarrow> LoraStack_invariant upstream"
  shows "lora_stacker models_dir Loras kwargs =
           Inr \<lparr>lora_paths =
                  map fst (spec_local_entries models_dir
                     [(sel1, kwargs_get kwargs ''scale1''), (sel2, kwargs_get kwargs ''scale2''),
                      (sel3, kwargs_get kwargs ''scale3'')]) @ upstream_paths Loras,
                lora_scales =
                  map snd (spec_local_entries models_dir
                     [(sel1, kwargs_get kwargs ''scale1''), (sel2, kwargs_get kwargs ''scale2''),
                      (sel3, kwargs_get kwargs ''scale3'')]) @ upstream_scales Loras\<rparr>"
proof -
  let ?local = "spec_local_entries models_dir
                     [(sel1, kwargs_get kwargs ''scale1''), (sel2, kwargs_get kwargs ''scale2''),
                      (sel3, kwargs_get kwargs ''scale3'')]"
  have loc: "lora_models_of models_dir kwargs [1..<4] = Inr ?local"
    using assms(1-3) by (rule lora_models_of_slots)
  show ?thesis
  proof (cases Loras)
    case None
    then show ?thesis
      unfolding lora_stacker_def loc by (simp add: Let_def)
  next
    case (Some upstream)
    with assms(4) have len: "length (lora_paths upstream) = length (lora_scales upstream)"
      by (simp add: LoraStack_invariant_def)
    then have "lora_paths upstream = [] \<longleftrightarrow> lora_scales upstream = []"
      by (metis length_0_conv)
    with Some len show ?thesis
      unfolding lora_stacker_def loc by (simp add: Let_def)
  qed
qed

text \<open>
  The theorem at two selected slots, one empty slot and an upstream stack of one entry.
\<close>

theorem lora_stacker_entries_witness:
  "lora_stacker ''/models''
     (Some \<lparr>lora_paths = [''/models/loras/u.safetensors''], lora_scales = [PFloat (3 / 10)]\<rparr>)
     [''Lora1'' \<mapsto> PStr ''a.safetensors'', ''scale1'' \<mapsto> PFloat (4 / 5),
      ''Lora2'' \<mapsto> PStr ''None'', ''scale2'' \<mapsto> PFloat 1,
      ''Lora3'' \<mapsto> PStr ''c.safetensors'', ''scale3'' \<mapsto> PFloat (1 / 2)] =
   Inr \<lparr>lora_paths = [''/models/loras/a.safetensors'', ''/models/loras/c.safetensors'',
                       ''/models/loras/u.safetensors''],
        lora_scales = [PFloat (4 / 5), PFloat (1 / 2), PFloat (3 / 10)]\<rparr>"
proof -
  let ?kwargs = "[''Lora1'' \<mapsto> PStr ''a.safetensors'', ''scale1'' \<mapsto> PFloat (4 / 5),
      ''Lora2'' \<mapsto> PStr ''None'', ''scale2'' \<mapsto> PFloat 1,
      ''Lora3'' \<mapsto> PStr ''c.safetensors'', ''scale3'' \<mapsto> PFloat (1 / 2)]"
  let ?up = "\<lparr>lora_paths = [''/models/loras/u.safetensors''], lora_scales = [PFloat (3 / 10)]\<rparr>"
  have s1: "kwargs_get ?kwargs ''Lora1'' = PStr ''a.safetensors''"
    and s2: "kwargs_get ?kwargs ''Lora2'' = PStr ''None''"
    and s3: "kwargs_get ?kwargs ''Lora3'' = PStr ''c.safetensors''"
    by (simp_all add: kwargs_get_def)
  have up: "case Some ?up of None \<Rightarrow> True | Some upstream \<Rightarrow> LoraStack_invariant upstream"
    by (simp add: LoraStack_invariant_def)
  show ?thesis
    unfolding lora_stacker_entries [OF s1 s2 s3 up, of "''/models''"]
    by (simp add: kwargs_get_def spec_local_entries_def resolved_path_def join_component_def)
qed

text \<open>
  Claim C2. Every stack that \<open>lora_stacker\<close> returns has as many paths as scales,
  whatever the keyword arguments and the upstream stack are.
\<close>

theorem lora_stacker_invariant:
  "lora_stacker models_dir Loras kwargs = Inr stack \<Longrightarrow> LoraStack_invariant stack"
  by (auto simp: lora_stacker_def LoraStack_invariant_def Let_def
      split: sum.splits option.splits if_splits)

text \<open>
  The theorem at the example of the specification: the selections
  \<^verbatim>\<open>a.safetensors\<close>, \<^verbatim>\<open>None\<close>, \<^verbatim>\<open>None\<close> with scale 0.8 and no upstream stack.
\<close>

theorem lora_stacker_invariant_witness:
  "lora_stacker ''/models'' None
     [''Lora1'' \<mapsto> PStr ''a.safetensors'', ''scale1'' \<mapsto> PFloat (4 / 5),
      ''Lora2'' \<mapsto> PStr ''None'', ''scale2'' \<mapsto> PFloat (4 / 5),
      ''Lora3'' \<mapsto> PStr ''None'', ''scale3'' \<mapsto> PFloat (4 / 5)] =
     Inr \<lparr>lora_paths = [''/models/loras/a.safetensors''], lora_scales = [PFloat (4 / 5)]\<rparr> \<and>
   LoraStack_invariant \<lparr>lora_paths = [''/models/loras/a.safetensors''], lora_scales = [PFloat (4 / 5)]\<rparr>"
proof -
  have run: "lora_stacker ''/models'' None
     [''Lora1'' \<mapsto> PStr ''a.safetensors'', ''scale1'' \<mapsto> PFloat (4 / 5),
      ''Lora2'' \<mapsto> PStr ''None'', ''scale2'' \<mapsto> PFloat (4 / 5),
      ''Lora3'' \<mapsto> PStr ''None'', ''scale3'' \<mapsto> PFloat (4 / 5)] =
     Inr \<lparr>lora_paths = [''/models/loras/a.safetensors''], lora_scales = [PFloat (4 / 5)]\<rparr>"
    unfolding lora_stacker_def slot_numbers
    by (simp add: str_nat_digits kwargs_get_def join_component_def del: One_nat_def)
  from run lora_stacker_invariant [OF run] show ?thesis
    by simp
qed

text \<open>
  Claim C3. When all three selections are the string \<^verbatim>\<open>"None"\<close> and no upstream stack
  is supplied, or the supplied one contributes nothing because one of its sequences is
  empty, so that the merged list is empty, \<open>lora_stacker\<close> returns a stack of two empty
  sequences.
\<close>

theorem lora_stacker_empty:
  assumes "kwargs_get kwargs ''Lora1'' = PStr ''None''"
    and "kwargs_get kwargs ''Lora2'' = PStr ''None''"
    and "kwargs_get kwargs ''Lora3'' = PStr ''None''"
    and "case Loras of None \<Rightarrow> True
         | Some upstream \<Rightarrow> lora_paths upstream = [] \<or> lora_scales upstream = []"
  shows "lora_stacker models_dir Loras kwargs = Inr \<lparr>lora_paths = [], lora_scales = []\<rparr>"
proof -
  have "lora_models_of models_dir kwargs [1..<4] = Inr []"
    unfolding slot_numbers using assms(1-3) by (simp add: str_nat_digits del: One_nat_def)
  with assms(4) show ?thesis
    unfolding lora_stacker_def by (auto split: option.splits)
qed

text \<open>The theorem at three \<^verbatim>\<open>"None"\<close> selections and no upstream stack.\<close>

theorem lora_stacker_empty_witness:
  "lora_stacker ''/models'' None
     [''Lora1'' \<mapsto> PStr ''None'', ''scale1'' \<mapsto> PFloat 1,
      ''Lora2'' \<mapsto> PStr ''None'', ''scale2'' \<mapsto> PFloat 1,
      ''Lora3'' \<mapsto> PStr ''None'', ''scale3'' \<mapsto> PFloat 1] =
   Inr \<lparr>lora_paths = [], lora_scales = []\<rparr>"
proof -
  let ?kwargs = "[''Lora1'' \<mapsto> PStr ''None'', ''scale1'' \<mapsto> PFloat 1,
      ''Lora2'' \<mapsto> PStr ''None'', ''scale2'' \<mapsto> PFloat 1,
      ''Lora3'' \<mapsto> PStr ''None'', ''scale3'' \<mapsto> PFloat 1]"
  have s1: "kwargs_get ?kwargs ''Lora1'' = PStr ''None''"
    and s2: "kwargs_get ?kwargs ''Lora2'' = PStr ''None''"
    and s3: "kwargs_get ?kwargs ''Lora3'' = PStr ''None''"
    by (simp_all add: kwargs_get_def)
  have up: "case None :: MfluxLorasPipeline option of None \<Rightarrow> True
            | Some upstream \<Rightarrow> lora_paths upstream = [] \<or> lora_scales upstream = []"
    by simp
  show ?thesis
    by (rule lora_stacker_empty [OF s1 s2 s3 up])
qed

section \<open>The image loader\<close>

text \<open>
  Claim C5, as amended. Whenever \<open>float\<close> and \<open>round\<close> return, the change-detection key
  is the pair of the hash of the identifier and the strength rounded to two decimals;
  the keys of two invocations are equal exactly when the hashes of the identifiers are
  equal and the rounded strengths are equal. So the key differs whenever the rounded
  strength or the hash of the identifier differs.
\<close>

theorem IS_CHANGED_key:
  assumes "py_float float_of_str s1 = Inr x1" and "py_round x1 2 = Inr r1"
    and "py_float float_of_str s2 = Inr x2" and "py_round x2 2 = Inr r2"
  shows "MfluxLoadImage_IS_CHANGED hash float_of_str i1 s1 = Inr (hash i1, r1) \<and>
         MfluxLoadImage_IS_CHANGED hash float_of_str i2 s2 = Inr (hash i2, r2) \<and>
         (MfluxLoadImage_IS_CHANGED hash float_of_str i1 s1 =
            MfluxLoadImage_IS_CHANGED hash float_of_str i2 s2
          \<longleftrightarrow> hash i1 = hash i2 \<and> r1 = r2)"
  using assms by (simp add: MfluxLoadImage_IS_CHANGED_def)

text \<open>
  The theorem at the strengths 0.125 and 0.1171875 of one image: both keys hold the
  float 0.12.
\<close>

theorem IS_CHANGED_key_witness:
  "\<forall>hash float_of_str.
     MfluxLoadImage_IS_CHANGED hash float_of_str ''a.png'' (PFloat (1 / 8)) =
       Inr (hash ''a.png'', 1080863910568919 / 9007199254740992) \<and>
     MfluxLoadImage_IS_CHANGED hash float_of_str ''a.png'' (PFloat (1 / 8)) =
       MfluxLoadImage_IS_CHANGED hash float_of_str ''a.png'' (PFloat (15 / 128))"
proof (intro allI)
  fix hash :: "string \<Rightarrow> 64 word" and float_of_str :: "string \<Rightarrow> rat option"
  have f1: "py_float float_of_str (PFloat (1 / 8)) = Inr (1 / 8)"
    and f2: "py_float float_of_str (PFloat (15 / 128)) = Inr (15 / 128)"
    by simp_all
  have r1: "py_round (1 / 8) 2 = Inr (1080863910568919 / 9007199254740992)"
    and r2: "py_round (15 / 128) 2 = Inr (1080863910568919 / 9007199254740992)"
    by code_simp+
  note key = IS_CHANGED_key [OF f1 r1 f2 r2, of hash "''a.png''" "''a.png''"]
  from key have "MfluxLoadImage_IS_CHANGED hash float_of_str ''a.png'' (PFloat (1 / 8)) =
       Inr (hash ''a.png'', 1080863910568919 / 9007199254740992)"
    by (rule conjunct1)
  moreover from key have "MfluxLoadImage_IS_CHANGED hash float_of_str ''a.png'' (PFloat (1 / 8)) =
       MfluxLoadImage_IS_CHANGED hash float_of_str ''a.png'' (PFloat (15 / 128))"
    by blast
  ultimately show "MfluxLoadImage_IS_CHANGED hash float_of_str ''a.png'' (PFloat (1 / 8)) =
       Inr (hash ''a.png'', 1080863910568919 / 9007199254740992) \<and>
     MfluxLoadImage_IS_CHANGED hash float_of_str ''a.png'' (PFloat (1 / 8)) =
       MfluxLoadImage_IS_CHANGED hash float_of_str ''a.png'' (PFloat (15 / 128))"
    by (rule conjI)
qed

text \<open>
  Against claim C5 as stated: whatever the hash function is, there are two different
  identifiers whose keys with the strength 0.5 are equal. A hash has 64 bits and
  there are more identifiers than that.
\<close>

theorem IS_CHANGED_identifier_counterexample:
  "\<forall>hash float_of_str. \<exists>i1 i2.
     i1 \<noteq> i2 \<and>
     MfluxLoadImage_IS_CHANGED hash float_of_str i1 (PFloat (1 / 2)) = Inr (hash i1, 1 / 2) \<and>
     MfluxLoadImage_IS_CHANGED hash float_of_str i2 (PFloat (1 / 2)) =
       MfluxLoadImage_IS_CHANGED hash float_of_str i1 (PFloat (1 / 2))"
proof (intro allI)
  fix hash :: "string \<Rightarrow> 64 word" and float_of_str :: "string \<Rightarrow> rat option"
  from hash_collision [of hash] obtain i1 i2 where "i1 \<noteq> i2" and "hash i1 = hash i2"
    by blast
  then show "\<exists>i1 i2.
     i1 \<noteq> i2 \<and>
     MfluxLoadImage_IS_CHANGED hash float_of_str i1 (PFloat (1 / 2)) = Inr (hash i1, 1 / 2) \<and>
     MfluxLoadImage_IS_CHANGED hash float_of_str i2 (PFloat (1 / 2)) =
       MfluxLoadImage_IS_CHANGED hash float_of_str i1 (PFloat (1 / 2))"
    by (intro exI [of _ i1] exI [of _ i2]) (simp add: MfluxLoadImage_IS_CHANGED_def py_round_half)
qed

text \<open>
  Claim C7. The validation of the image loader returns a message exactly when the
  identifier does not resolve to an existing file or the strength is not numeric, and
  \<open>True\<close> exactly when the file exists and the strength is numeric.
\<close>

theorem LoadImage_VALIDATE_INPUTS_iff:
  "((\<exists>msg. MfluxLoadImage_VALIDATE_INPUTS exists_annotated_filepath image' strength' = Invalid msg)
      \<longleftrightarrow> \<not> exists_annotated_filepath image' \<or> \<not> numeric strength') \<and>
   (MfluxLoadImage_VALIDATE_INPUTS exists_annotated_filepath image' strength' = Valid
      \<longleftrightarrow> exists_annotated_filepath image' \<and> numeric strength')"
  by (simp add: MfluxLoadImage_VALIDATE_INPUTS_def isinstance_int_float)

text \<open>
  The theorem where only \<^verbatim>\<open>a.png\<close> exists: accepted with the strength 0.4, and a
  message for the strength \<^verbatim>\<open>"0.4"\<close>, a string, and for the missing \<^verbatim>\<open>b.png\<close>.
\<close>

theorem LoadImage_VALIDATE_INPUTS_iff_witness:
  "MfluxLoadImage_VALIDATE_INPUTS (\<lambda>name. name = ''a.png'') ''a.png'' (PFloat (2 / 5)) = Valid \<and>
   (\<exists>msg. MfluxLoadImage_VALIDATE_INPUTS (\<lambda>name. name = ''a.png'') ''a.png'' (PStr ''0.4'') = Invalid msg) \<and>
   (\<exists>msg. MfluxLoadImage_VALIDATE_INPUTS (\<lambda>name. name = ''a.png'') ''b.png'' (PFloat (2 / 5)) = Invalid msg)"
  using LoadImage_VALIDATE_INPUTS_iff [of "\<lambda>name. name = ''a.png''" "''a.png''" "PFloat (2 / 5)"]
    LoadImage_VALIDATE_INPUTS_iff [of "\<lambda>name. name = ''a.png''" "''a.png''" "PStr ''0.4''"]
    LoadImage_VALIDATE_INPUTS_iff [of "\<lambda>name. name = ''a.png''" "''b.png''" "PFloat (2 / 5)"]
  by simp

text \<open>
  Claim C10. For an identifier that resolves to an existing file, a boolean strength is
  accepted: the validation returns \<open>True\<close>, not the message about the strength.
\<close>

theorem LoadImage_VALIDATE_INPUTS_bool:
  "exists_annotated_filepath image' \<Longrightarrow>
   MfluxLoadImage_VALIDATE_INPUTS exists_annotated_filepath image' (PBool b) = Valid"
  by (simp add: MfluxLoadImage_VALIDATE_INPUTS_def isinstance_def)

text \<open>The theorem at the existing file \<^verbatim>\<open>a.png\<close> and the strengths \<open>True\<close> and \<open>False\<close>.\<close>

theorem LoadImage_VALIDATE_INPUTS_bool_witness:
  "MfluxLoadImage_VALIDATE_INPUTS (\<lambda>name. name = ''a.png'') ''a.png'' (PBool True) = Valid \<and>
   MfluxLoadImage_VALIDATE_INPUTS (\<lambda>name. name = ''a.png'') ''a.png'' (PBool False) = Valid"
proof -
  have ex: "(\<lambda>name. name = ''a.png'') ''a.png''"
    by simp
  show ?thesis
    using LoadImage_VALIDATE_INPUTS_bool [of "\<lambda>name. name = ''a.png''", OF ex, of True]
      LoadImage_VALIDATE_INPUTS_bool [of "\<lambda>name. name = ''a.png''", OF ex, of False]
    by (rule conjI)
qed

section \<open>The ControlNet loader\<close>

text \<open>
  Claim C4. For a supplied image reference whose file opens and whose preprocessed edge
  map converts to an array of three dimensions, \<open>load_and_select\<close> returns the
  configuration together with a tensor of four dimensions: the shape of the array with a
  batch dimension in front, and as elements the pixels of the array, converted to 32-bit
  floats and divided by 255 in 32-bit arithmetic.
\<close>

theorem load_and_select_tensor:
  assumes "image_path i = Some p"
    and "Image_open p = Inr img"
    and "preprocess_canny img = Inr canny_image"
    and "dim (np_array canny_image) = 3"
  shows "load_and_select Image_open preprocess_canny np_array model_selection' save_canny' (Some i) =
           Inr (\<lparr>model_selection = model_selection', save_canny = save_canny'\<rparr>,
                \<lparr>shape = 1 # shape (np_array canny_image),
                 elements = map (\<lambda>px. float32 (float32 (of_int px) / 255))
                              (elements (np_array canny_image))\<rparr>) \<and>
         dim \<lparr>shape = 1 # shape (np_array canny_image),
              elements = map (\<lambda>px. float32 (float32 (of_int px) / 255))
                           (elements (np_array canny_image))\<rparr> = 4"
  using assms
  by (simp add: load_and_select_def PIL_Image_open_def dim_def unsqueeze_def map_ndarray_def
      astype_float32_def float32_divide_def float32_255 Let_def)

text \<open>
  The theorem at an edge map of shape 1 x 3 x 1 with the pixels 0, 128 and 255: the
  tensor has the shape 1 x 1 x 3 x 1 and the elements 0, the 32-bit float nearest to
  128 / 255, and 1.
\<close>

theorem load_and_select_tensor_witness:
  "load_and_select (\<lambda>path. Inr \<lparr>shape = [1, 3, 1], elements = [0, 128, 255 :: int]\<rparr>) Inr (\<lambda>img. img)
       (PStr ''InstantX/FLUX.1-dev-Controlnet-Canny'') (PBool False)
       (Some \<lparr>image_path = Some ''in.png'', strength = PFloat (1 / 2)\<rparr>) =
     Inr (\<lparr>model_selection = PStr ''InstantX/FLUX.1-dev-Controlnet-Canny'', save_canny = PBool False\<rparr>,
          \<lparr>shape = [1, 1, 3, 1], elements = [0, 8421505 / 16777216, 1]\<rparr>)"
proof -
  let ?arr = "\<lparr>shape = [1, 3, 1], elements = [0, 128, 255 :: int]\<rparr>"
  have h1: "image_path \<lparr>image_path = Some ''in.png'', strength = PFloat (1 / 2)\<rparr> = Some ''in.png''"
    by simp
  have h2: "(\<lambda>path :: string. (Inr ?arr :: exception + int ndarray)) ''in.png'' = Inr ?arr"
    by simp
  have h3: "(Inr :: int ndarray \<Rightarrow> exception + int ndarray) ?arr = Inr ?arr"
    by simp
  have h4: "dim ((\<lambda>img. img) ?arr) = 3"
    by (simp add: dim_def)
  have e0: "float32 (float32 (of_int 0) / 255) = 0"
    and e128: "float32 (float32 (of_int 128) / 255) = 8421505 / 16777216"
    and e255: "float32 (float32 (of_int 255) / 255) = 1"
    by code_simp+
  from load_and_select_tensor [of _ _ "\<lambda>path. Inr ?arr" _ Inr _ "\<lambda>img. img", OF h1 h2 h3 h4,
      of "PStr ''InstantX/FLUX.1-dev-Controlnet-Canny''" "PBool False"]
  show ?thesis
    using e0 e128 e255 by simp
qed

text \<open>
  Claim C9. The result of \<open>load_and_select\<close> does not depend on the strength of the
  supplied image reference: two references with the same path give the same
  configuration and the same tensor (or the same failure).
\<close>

theorem load_and_select_strength:
  "image_path i1 = image_path i2 \<Longrightarrow>
   load_and_select Image_open preprocess_canny np_array model_selection' save_canny' (Some i1) =
   load_and_select Image_open preprocess_canny np_array model_selection' save_canny' (Some i2)"
  by (simp add: load_and_select_def)

text \<open>The theorem at two references to \<^verbatim>\<open>in.png\<close> with the strengths 0.5 and 0.75.\<close>

theorem load_and_select_strength_witness:
  "load_and_select (\<lambda>path. Inr \<lparr>shape = [1, 3, 1], elements = [0, 128, 255 :: int]\<rparr>) Inr (\<lambda>img. img)
       (PStr ''InstantX/FLUX.1-dev-Controlnet-Canny'') (PBool False)
       (Some \<lparr>image_path = Some ''in.png'', strength = PFloat (1 / 2)\<rparr>) =
   load_and_select (\<lambda>path. Inr \<lparr>shape = [1, 3, 1], elements = [0, 128, 255 :: int]\<rparr>) Inr (\<lambda>img. img)
       (PStr ''InstantX/FLUX.1-dev-Controlnet-Canny'') (PBool False)
       (Some \<lparr>image_path = Some ''in.png'', strength = PFloat (3 / 4)\<rparr>)"
  by (rule load_and_select_strength) simp

text \<open>
  Claim C6, as amended. The validation of the ControlNet loader raises exactly when a
  reference is supplied that holds no path, as after \<open>clear_cache\<close>. Otherwise it returns
  a message exactly when the model selection is not the supported model, or the save flag
  is not a boolean, or the path of the supplied reference does not resolve to an existing
  file, and \<open>True\<close> exactly when none of the three holds.
\<close>

theorem ControlNet_VALIDATE_INPUTS_iff:
  "(MfluxControlNetLoader_VALIDATE_INPUTS exists_annotated_filepath image'
        model_selection' save_canny' = Inl AttributeError
      \<longleftrightarrow> (\<exists>i. image' = Some i \<and> image_path i = None)) \<and>
   ((\<exists>msg. MfluxControlNetLoader_VALIDATE_INPUTS exists_annotated_filepath image'
             model_selection' save_canny' = Inr (Invalid msg))
      \<longleftrightarrow> \<not> (\<exists>i. image' = Some i \<and> image_path i = None) \<and>
          (model_selection' \<noteq> PStr ''InstantX/FLUX.1-dev-Controlnet-Canny'' \<or>
           \<not> (\<exists>b. save_canny' = PBool b) \<or>
           (\<exists>i p. image' = Some i \<and> image_path i = Some p \<and> \<not> exists_annotated_filepath p))) \<and>
   (MfluxControlNetLoader_VALIDATE_INPUTS exists_annotated_filepath image'
        model_selection' save_canny' = Inr Valid
      \<longleftrightarrow> \<not> (\<exists>i. image' = Some i \<and> image_path i = None) \<and>
          model_selection' = PStr ''InstantX/FLUX.1-dev-Controlnet-Canny'' \<and>
          (\<exists>b. save_canny' = PBool b) \<and>
          \<not> (\<exists>i p. image' = Some i \<and> image_path i = Some p \<and> \<not> exists_annotated_filepath p))"
  by (auto simp: MfluxControlNetLoader_VALIDATE_INPUTS_def available_models_def isinstance_bool Let_def
      split: option.splits)

text \<open>
  The theorem where only \<^verbatim>\<open>in.png\<close> exists: the supported model, the flag \<open>False\<close> and a
  reference to \<^verbatim>\<open>in.png\<close> are accepted; a reference to \<^verbatim>\<open>gone.png\<close> is not, nor is the
  flag 0, an integer.
\<close>

theorem ControlNet_VALIDATE_INPUTS_iff_witness:
  "MfluxControlNetLoader_VALIDATE_INPUTS (\<lambda>name. name = ''in.png'')
       (Some \<lparr>image_path = Some ''in.png'', strength = PFloat (1 / 2)\<rparr>)
       (PStr ''InstantX/FLUX.1-dev-Controlnet-Canny'') (PBool False) = Inr Valid \<and>
   (\<exists>msg. MfluxControlNetLoader_VALIDATE_INPUTS (\<lambda>name. name = ''in.png'')
       (Some \<lparr>image_path = Some ''gone.png'', strength = PFloat (1 / 2)\<rparr>)
       (PStr ''InstantX/FLUX.1-dev-Controlnet-Canny'') (PBool False) = Inr (Invalid msg)) \<and>
   (\<exists>msg. MfluxControlNetLoader_VALIDATE_INPUTS (\<lambda>name. name = ''in.png'')
       None (PStr ''InstantX/FLUX.1-dev-Controlnet-Canny'') (PInt 0) = Inr (Invalid msg))"
proof -
  let ?ex = "\<lambda>name. name = ''in.png''"
  let ?model = "PStr ''InstantX/FLUX.1-dev-Controlnet-Canny''"
  let ?here = "Some \<lparr>image_path = Some ''in.png'', strength = PFloat (1 / 2)\<rparr>"
  let ?gone = "Some \<lparr>image_path = Some ''gone.png'', strength = PFloat (1 / 2)\<rparr>"
  have "MfluxControlNetLoader_VALIDATE_INPUTS ?ex ?here ?model (PBool False) = Inr Valid"
    using ControlNet_VALIDATE_INPUTS_iff [of ?ex ?here ?model "PBool False"] by auto
  moreover have "\<exists>msg. MfluxControlNetLoader_VALIDATE_INPUTS ?ex ?gone ?model (PBool False) = Inr (Invalid msg)"
    using ControlNet_VALIDATE_INPUTS_iff [of ?ex ?gone ?model "PBool False"] by auto
  moreover have "\<exists>msg. MfluxControlNetLoader_VALIDATE_INPUTS ?ex None ?model (PInt 0) = Inr (Invalid msg)"
    using ControlNet_VALIDATE_INPUTS_iff [of ?ex None ?model "PInt 0"] by auto
  ultimately show ?thesis
    by simp
qed

text \<open>
  Against claim C6 as stated: where only \<^verbatim>\<open>in.png\<close> exists, a reference to it that has
  been cleared, together with a model that is not supported, is not answered by a
  message: the validation raises.
\<close>

theorem ControlNet_VALIDATE_INPUTS_cleared_counterexample:
  "MfluxControlNetLoader_VALIDATE_INPUTS (\<lambda>name. name = ''in.png'')
       (Some (MfluxImagePipeline_clear_cache \<lparr>image_path = Some ''in.png'', strength = PFloat (1 / 2)\<rparr>))
       (PStr ''unsupported-model'') (PBool False) = Inl AttributeError"
  by (simp add: MfluxControlNetLoader_VALIDATE_INPUTS_def MfluxImagePipeline_clear_cache_def)

section \<open>Clearing the holders\<close>

text \<open>
  Claim C8. Whatever a holder contains, \<open>clear_cache\<close> leaves every field cleared: the
  image reference without path and strength, the LoRA stack with two empty sequences,
  the ControlNet configuration without model selection and with the save flag \<open>False\<close>.
\<close>

theorem clear_cache_fields:
  "MfluxImagePipeline_clear_cache image_reference = \<lparr>image_path = None, strength = PNone\<rparr> \<and>
   MfluxLorasPipeline_clear_cache lora_stack = \<lparr>lora_paths = [], lora_scales = []\<rparr> \<and>
   MfluxControlNetPipeline_clear_cache config = \<lparr>model_selection = PNone, save_canny = PBool False\<rparr>"
  by (simp add: MfluxImagePipeline_clear_cache_def MfluxLorasPipeline_clear_cache_def
      MfluxControlNetPipeline_clear_cache_def)

text \<open>The theorem at three filled holders.\<close>

theorem clear_cache_fields_witness:
  "MfluxImagePipeline_clear_cache \<lparr>image_path = Some ''in.png'', strength = PFloat (2 / 5)\<rparr> =
     \<lparr>image_path = None, strength = PNone\<rparr> \<and>
   MfluxLorasPipeline_clear_cache
       \<lparr>lora_paths = [''/models/loras/a.safetensors''], lora_scales = [PFloat (4 / 5)]\<rparr> =
     \<lparr>lora_paths = [], lora_scales = []\<rparr> \<and>
   MfluxControlNetPipeline_clear_cache
       \<lparr>model_selection = PStr ''InstantX/FLUX.1-dev-Controlnet-Canny'', save_canny = PBool True\<rparr> =
     \<lparr>model_selection = PNone, save_canny = PBool False\<rparr>"
  by (rule clear_cache_fields)

end
